theory Spec2Isabelle
  imports Main "HOL-Library.Word"
begin

section \<open>The SSE transport of the Elysia MCP server\<close>

text \<open>
  A shallow embedding of \<^verbatim>\<open>SSEElysiaTransport\<close> (the transport class) and of the
  routing code of \<^verbatim>\<open>index.ts\<close> (the session map \<^verbatim>\<open>transports\<close> and its two route
  handlers).

  Conventions of the embedding:
  \<^item> a JavaScript string is modelled by the bytes of its UTF-8 encoding, as a
    \<^typ>\<open>string\<close>; strings with lone surrogates have no such encoding and are outside
    the model;
  \<^item> a thrown JavaScript value is a value of \<open>thrown\<close>; a method that may throw (or an
    async method that may reject) returns \<open>thrown + unit\<close> together with the new state;
  \<^item> the three callback slots are optional; a registered callback is described by its
    synchronous outcome (it returns, or it throws), and every invocation is recorded,
    with its argument, in the field \<open>calls\<close>; a callback does not call back into the
    transport while it runs;
  \<^item> \<^verbatim>\<open>console.log\<close> and \<^verbatim>\<open>console.error\<close> are not modelled;
  \<^item> what the runtime and the libraries decide is an input: the outcome of
    \<^verbatim>\<open>new Response(stream)\<close>, whether the stream controller still accepts chunks, the
    identifier returned by \<^verbatim>\<open>randomUUID()\<close>, the schema parser
    \<^verbatim>\<open>JSONRPCMessageSchema.parse\<close> and \<^verbatim>\<open>JSON.stringify\<close>.
\<close>

subsection \<open>Thrown values\<close>

text \<open>
  A thrown value is an \<^verbatim>\<open>Error\<close> instance or some other value; either carries the
  text that \<^verbatim>\<open>String(value)\<close> yields.
\<close>

datatype thrown = ErrorInstance string | OtherValue string

fun String_of :: "thrown \<Rightarrow> string" where
  "String_of (ErrorInstance s) = s"
| "String_of (OtherValue s) = s"

text \<open>\<^verbatim>\<open>new Error(message)\<close>; its string form is \<^verbatim>\<open>Error: message\<close>, or \<^verbatim>\<open>Error\<close> alone
  when the message is empty.\<close>

definition new_Error :: "string \<Rightarrow> thrown" where
  "new_Error message =
     ErrorInstance (if message = [] then ''Error'' else ''Error: '' @ message)"

text \<open>\<^verbatim>\<open>error instanceof Error ? error : new Error(String(error))\<close>\<close>

fun toError :: "thrown \<Rightarrow> thrown" where
  "toError (ErrorInstance s) = ErrorInstance s"
| "toError (OtherValue s) = new_Error s"

subsection \<open>Text encoding and URI escaping\<close>

type_synonym byte = "8 word"

text \<open>\<^verbatim>\<open>TextEncoder.encode\<close>: a string that is modelled by its UTF-8 bytes encodes to
  those bytes.\<close>

definition TextEncoder_encode :: "string \<Rightarrow> byte list" where
  "TextEncoder_encode s = map of_char s"


definition is_alnum :: "char \<Rightarrow> bool" where
  "is_alnum c =
     (c \<in> set ''abcdefghijklmnopqrstuvwxyzABCDEFGHIJKLMNOPQRSTUVWXYZ0123456789'')"

text \<open>The marks that neither \<^verbatim>\<open>encodeURI\<close> nor \<^verbatim>\<open>encodeURIComponent\<close> escapes:
  \<^verbatim>\<open>- _ . ! ~ * ' ( )\<close>.\<close>

definition uri_mark :: "char \<Rightarrow> bool" where
  "uri_mark c = (c \<in> set [CHR ''-'', CHR ''_'', CHR ''.'', CHR ''!'', CHR ''~'', CHR ''*'',
                           CHR 0x27, CHR ''('', CHR '')''])"

text \<open>The reserved characters that \<^verbatim>\<open>encodeURI\<close> keeps as well:
  \<^verbatim>\<open>; / ? : @ & = + $ , #\<close>.\<close>

definition uri_reserved :: "char \<Rightarrow> bool" where
  "uri_reserved c = (c \<in> set [CHR '';'', CHR ''/'', CHR ''?'', CHR '':'', CHR ''@'', CHR ''&'',
                               CHR ''='', CHR ''+'', CHR ''$'', CHR '','', CHR ''#''])"

definition hex_digit :: "nat \<Rightarrow> char" where
  "hex_digit n = (''0123456789ABCDEF'') ! (n mod 16)"

definition percent :: "char \<Rightarrow> string" where
  "percent c = [CHR ''%'', hex_digit (of_char c div 16), hex_digit (of_char c mod 16)]"

definition encodeURI :: "string \<Rightarrow> string" where
  "encodeURI s =
     concat (map (\<lambda>c. if is_alnum c \<or> uri_mark c \<or> uri_reserved c then [c] else percent c) s)"

definition encodeURIComponent :: "string \<Rightarrow> string" where
  "encodeURIComponent s =
     concat (map (\<lambda>c. if is_alnum c \<or> uri_mark c then [c] else percent c) s)"

text \<open>The textual form of the identifiers that \<^verbatim>\<open>randomUUID()\<close> returns: 36 characters,
  lower-case hexadecimal digits in five groups of 8, 4, 4, 4 and 12, separated by
  hyphens.\<close>

definition is_lower_hex :: "char \<Rightarrow> bool" where
  "is_lower_hex c = (c \<in> set ''0123456789abcdef'')"

definition uuid_hyphens :: "bool list" where
  "uuid_hyphens =
     replicate 8 False @ [True] @ replicate 4 False @ [True] @ replicate 4 False @ [True]
     @ replicate 4 False @ [True] @ replicate 12 False"

definition is_uuid :: "string \<Rightarrow> bool" where
  "is_uuid s =
     (map (\<lambda>c. c = CHR ''-'') s = uuid_hyphens \<and> list_all (\<lambda>c. c = CHR ''-'' \<or> is_lower_hex c) s)"

subsection \<open>The readable stream and its controller\<close>

text \<open>
  The transport owns a \<^verbatim>\<open>ReadableStream\<close> and writes through its controller. \<open>chunks\<close>
  are the chunks enqueued so far, oldest first. \<open>fault\<close> is \<open>None\<close> while the controller
  accepts chunks and \<open>Some e\<close> when \<^verbatim>\<open>enqueue\<close> throws \<open>e\<close>.
\<close>

record stream =
  chunks :: "byte list list"
  fault :: "thrown option"

definition enqueue :: "byte list \<Rightarrow> stream \<Rightarrow> thrown + stream" where
  "enqueue chunk s =
     (case fault s of
        Some e \<Rightarrow> Inl e
      | None \<Rightarrow> Inr (s\<lparr>chunks := chunks s @ [chunk]\<rparr>))"

subsection \<open>The transport\<close>

datatype outcome = Returns | Throws thrown

datatype 'msg call = OnClose | OnError thrown | OnMessage 'msg

record 'msg transport =
  sessionId :: string
  endpoint :: string
  isConnected :: bool
  stream :: stream
  ctxResponse :: bool
  keepaliveInterval :: "nat option"
  onclose :: "outcome option"
  onerror :: "(thrown \<Rightarrow> outcome) option"
  onmessage :: "('msg \<Rightarrow> outcome) option"
  calls :: "'msg call list"

text \<open>
  \<open>ctxResponse\<close> says whether \<^verbatim>\<open>ctx.response\<close> has been bound to the stream.
  \<open>keepaliveInterval\<close> is the timer handle of the second variant of the class; no method
  of either variant ever sets it.
\<close>

type_synonym 'msg result = "(thrown + unit) \<times> 'msg transport"

fun completed :: "outcome \<Rightarrow> thrown + unit" where
  "completed Returns = Inr ()"
| "completed (Throws e) = Inl e"

text \<open>The constructor: \<open>uuid\<close> is the value that \<^verbatim>\<open>randomUUID()\<close> returned. The
  stream's \<^verbatim>\<open>start\<close> callback runs inside the constructor and stores the controller.\<close>

definition SSEElysiaTransport :: "string \<Rightarrow> string \<Rightarrow> 'msg transport" where
  "SSEElysiaTransport ep uuid =
     \<lparr>sessionId = uuid, endpoint = ep, isConnected = False,
      stream = \<lparr>chunks = [], fault = None\<rparr>, ctxResponse = False,
      keepaliveInterval = None,
      onclose = None, onerror = None, onmessage = None, calls = []\<rparr>"

text \<open>The three optional calls \<^verbatim>\<open>this.onclose?.()\<close>, \<^verbatim>\<open>this.onerror?.(e)\<close> and
  \<^verbatim>\<open>this.onmessage?.(m)\<close>: nothing happens when the slot is unset.\<close>

definition call_onclose :: "'msg transport \<Rightarrow> 'msg result" where
  "call_onclose t =
     (case onclose t of
        None \<Rightarrow> (Inr (), t)
      | Some r \<Rightarrow> (completed r, t\<lparr>calls := calls t @ [OnClose]\<rparr>))"

definition call_onerror :: "thrown \<Rightarrow> 'msg transport \<Rightarrow> 'msg result" where
  "call_onerror e t =
     (case onerror t of
        None \<Rightarrow> (Inr (), t)
      | Some f \<Rightarrow> (completed (f e), t\<lparr>calls := calls t @ [OnError e]\<rparr>))"

definition call_onmessage :: "'msg \<Rightarrow> 'msg transport \<Rightarrow> 'msg result" where
  "call_onmessage m t =
     (case onmessage t of
        None \<Rightarrow> (Inr (), t)
      | Some f \<Rightarrow> (completed (f m), t\<lparr>calls := calls t @ [OnMessage m]\<rparr>))"

text \<open>The \<^verbatim>\<open>cancel\<close> callback of the stream (client disconnect).\<close>

definition cancel :: "'msg transport \<Rightarrow> 'msg result" where
  "cancel t = call_onclose (t\<lparr>isConnected := False\<rparr>)"

definition handleError :: "thrown \<Rightarrow> 'msg transport \<Rightarrow> 'msg result" where
  "handleError e t = call_onerror (toError e) (t\<lparr>isConnected := False\<rparr>)"

text \<open>\<open>bound\<close> is the outcome of \<^verbatim>\<open>new Response(this._stream)\<close>: \<open>None\<close> when the
  response was constructed, \<open>Some e\<close> when the constructor threw \<open>e\<close>.\<close>

definition setupResponse :: "thrown option \<Rightarrow> 'msg transport \<Rightarrow> 'msg result" where
  "setupResponse bound t =
     (case bound of
        Some e \<Rightarrow> (Inl e, t)
      | None \<Rightarrow> (Inr (), t\<lparr>ctxResponse := True\<rparr>))"

definition markAsConnected :: "'msg transport \<Rightarrow> 'msg transport" where
  "markAsConnected t = t\<lparr>isConnected := True\<rparr>"

definition sse_frame :: "string \<Rightarrow> string \<Rightarrow> string" where
  "sse_frame event data =
     ''event: '' @ event @ [CHR 0x0A] @ ''data: '' @ data @ [CHR 0x0A, CHR 0x0A]"

definition sendEvent :: "string \<Rightarrow> string \<Rightarrow> 'msg transport \<Rightarrow> 'msg result" where
  "sendEvent event data t =
     (if \<not> isConnected t then (Inr (), t)
      else (case enqueue (TextEncoder_encode (sse_frame event data)) (stream t) of
              Inr s \<Rightarrow> (Inr (), t\<lparr>stream := s\<rparr>)
            | Inl e \<Rightarrow> handleError e t))"

definition endpointUrl :: "'msg transport \<Rightarrow> string" where
  "endpointUrl t = encodeURI (endpoint t) @ ''?sessionId='' @ sessionId t"

definition sendEndpointEvent :: "'msg transport \<Rightarrow> 'msg result" where
  "sendEndpointEvent t = sendEvent ''endpoint'' (endpointUrl t) t"

text \<open>The \<^verbatim>\<open>catch\<close> block of \<^verbatim>\<open>start\<close>: report the error, then throw it again. When the
  error callback itself throws, that is what leaves the block.\<close>

definition start_catch :: "thrown \<Rightarrow> 'msg transport \<Rightarrow> 'msg result" where
  "start_catch e t =
     (case handleError e t of
        (Inl e', t') \<Rightarrow> (Inl e', t')
      | (Inr _, t') \<Rightarrow> (Inl e, t'))"

definition start :: "thrown option \<Rightarrow> 'msg transport \<Rightarrow> 'msg result" where
  "start bound t =
     (if isConnected t then (Inr (), t)
      else (case setupResponse bound t of
              (Inl e, t1) \<Rightarrow> start_catch e t1
            | (Inr _, t1) \<Rightarrow>
                (case sendEndpointEvent (markAsConnected t1) of
                   (Inl e, t2) \<Rightarrow> start_catch e t2
                 | (Inr _, t2) \<Rightarrow> (Inr (), t2))))"

text \<open>\<open>parse\<close> stands for \<^verbatim>\<open>JSONRPCMessageSchema.parse\<close>: it returns the decoded message
  or throws the validation error.\<close>

definition handleMessage ::
  "('raw \<Rightarrow> thrown + 'msg) \<Rightarrow> 'msg transport \<Rightarrow> 'raw \<Rightarrow> 'msg result" where
  "handleMessage parse t message =
     (case parse message of
        Inl e \<Rightarrow>
          (case call_onerror (toError e) t of
             (Inl e', t') \<Rightarrow> (Inl e', t')
           | (Inr _, t') \<Rightarrow> (Inl e, t'))
      | Inr parsedMessage \<Rightarrow> call_onmessage parsedMessage t)"

text \<open>An HTTP response: the status, the headers and the object that
  \<^verbatim>\<open>JSON.stringify\<close> turns into the body, \<^verbatim>\<open>{ error: message }\<close> or
  \<^verbatim>\<open>{ success: true }\<close>.\<close>

datatype body = ErrorBody string | SuccessBody

record response =
  status :: nat
  headers :: "(string \<times> string) list"
  body :: body

definition createErrorResponse :: "string \<Rightarrow> nat \<Rightarrow> response" where
  "createErrorResponse message st =
     \<lparr>status = st, headers = [(''content-type'', ''application/json'')],
      body = ErrorBody message\<rparr>"

definition createSuccessResponse :: response where
  "createSuccessResponse =
     \<lparr>status = 202, headers = [(''content-type'', ''application/json'')],
      body = SuccessBody\<rparr>"

definition handlePostMessage ::
  "('raw \<Rightarrow> thrown + 'msg) \<Rightarrow> 'msg transport \<Rightarrow> 'raw \<Rightarrow> response \<times> 'msg transport" where
  "handlePostMessage parse t ctx_body =
     (if \<not> isConnected t
      then (createErrorResponse ''SSE connection not established'' 500, t)
      else (case handleMessage parse t ctx_body of
              (Inr _, t') \<Rightarrow> (createSuccessResponse, t')
            | (Inl e, t') \<Rightarrow> (createErrorResponse (String_of e) 400, t')))"

definition close :: "'msg transport \<Rightarrow> 'msg result" where
  "close t = call_onclose (t\<lparr>isConnected := False\<rparr>)"

text \<open>\<open>stringify\<close> stands for \<^verbatim>\<open>JSON.stringify\<close> on the messages it turns into a text;
  a message on which it throws is outside the model.\<close>

definition send :: "('msg \<Rightarrow> string) \<Rightarrow> 'msg transport \<Rightarrow> 'msg \<Rightarrow> 'msg result" where
  "send stringify t message =
     (if \<not> isConnected t then (Inl (new_Error ''Not connected''), t)
      else sendEvent ''message'' (stringify message) t)"

text \<open>The second variant of the class has a keep-alive timer, which it stops before it
  closes; apart from that call its methods are those above. No statement starts the
  timer.\<close>

definition stopKeepalive :: "'msg transport \<Rightarrow> 'msg transport" where
  "stopKeepalive t =
     (case keepaliveInterval t of
        Some _ \<Rightarrow> t\<lparr>keepaliveInterval := None\<rparr>
      | None \<Rightarrow> t)"

definition close_v2 :: "'msg transport \<Rightarrow> 'msg result" where
  "close_v2 t = call_onclose ((stopKeepalive t)\<lparr>isConnected := False\<rparr>)"

subsection \<open>The session map and the route handlers\<close>

text \<open>
  \<^verbatim>\<open>index.ts\<close> keeps the module-level map \<^verbatim>\<open>transports\<close> from session ids to transport
  objects. Objects live in \<open>heap\<close>; a reference is an index into it, so that the map
  holds references as the JavaScript \<^verbatim>\<open>Map\<close> does. Nothing outside \<^verbatim>\<open>index.ts\<close> can
  reach the map.
\<close>

record 'msg system =
  transports :: "string \<rightharpoonup> nat"
  heap :: "'msg transport list"

definition init_system :: "'msg system" where
  "init_system = \<lparr>transports = Map.empty, heap = []\<rparr>"

text \<open>
  \<^verbatim>\<open>server.connect(transport)\<close> belongs to the protocol library: it installs its three
  handlers in the callback slots and then awaits \<^verbatim>\<open>transport.start()\<close>. The handlers
  are an input, described by their outcomes.
\<close>

record 'msg handlers =
  on_close :: outcome
  on_error :: "thrown \<Rightarrow> outcome"
  on_message :: "'msg \<Rightarrow> outcome"

definition server_connect ::
  "'msg handlers \<Rightarrow> thrown option \<Rightarrow> 'msg transport \<Rightarrow> 'msg result" where
  "server_connect h bound t =
     start bound
       (t\<lparr>onclose := Some (on_close h), onerror := Some (on_error h),
          onmessage := Some (on_message h)\<rparr>)"

text \<open>What a route handler returns: the streaming response of a transport, or a JSON
  response.\<close>

datatype reply = StreamOf nat | Json response

text \<open>\<^verbatim>\<open>createErrorResponse\<close> of \<^verbatim>\<open>index.ts\<close>; the optional details are not part of the
  model.\<close>

definition index_createErrorResponse :: "string \<Rightarrow> nat \<Rightarrow> response" where
  "index_createErrorResponse message st =
     \<lparr>status = st, headers = [(''Content-Type'', ''application/json'')],
      body = ErrorBody message\<rparr>"

definition handleSSEConnection ::
  "string \<Rightarrow> 'msg handlers \<Rightarrow> thrown option \<Rightarrow> 'msg system \<Rightarrow> reply \<times> 'msg system" where
  "handleSSEConnection uuid h bound s =
     (let transport = SSEElysiaTransport ''/messages'' uuid;
          ref = length (heap s);
          registered = (transports s)(sessionId transport \<mapsto> ref)
      in (case server_connect h bound transport of
            (Inr _, t') \<Rightarrow>
              (StreamOf ref, \<lparr>transports = registered, heap = heap s @ [t']\<rparr>)
          | (Inl e, t') \<Rightarrow>
              (Json (index_createErrorResponse ''Transport error'' 500),
               \<lparr>transports = registered, heap = heap s @ [t']\<rparr>)))"

text \<open>\<open>sid\<close> is \<^verbatim>\<open>url.searchParams.get("sessionId")\<close>. A reference that points outside
  the heap behaves as \<^verbatim>\<open>undefined\<close> does: the method call throws and the handler's
  \<^verbatim>\<open>catch\<close> answers 500.\<close>

definition index_handleMessage ::
  "('raw \<Rightarrow> thrown + 'msg) \<Rightarrow> string option \<Rightarrow> 'raw \<Rightarrow> 'msg system \<Rightarrow> response \<times> 'msg system"
  where
  "index_handleMessage parse sid ctx_body s =
     (case sid of
        None \<Rightarrow> (index_createErrorResponse ''Invalid or missing session ID'' 400, s)
      | Some i \<Rightarrow>
          (if i = [] then (index_createErrorResponse ''Invalid or missing session ID'' 400, s)
           else (case transports s i of
                   None \<Rightarrow> (index_createErrorResponse ''Invalid or missing session ID'' 400, s)
                 | Some ref \<Rightarrow>
                     (if ref < length (heap s)
                      then (let (r, t') = handlePostMessage parse (heap s ! ref) ctx_body
                            in (r, s\<lparr>heap := (heap s)[ref := t']\<rparr>))
                      else (index_createErrorResponse ''Internal server error'' 500, s)))))"

text \<open>
  Besides the two routes, the protocol library and the runtime act on a transport they
  hold a reference to: they close it, send on it, cancel its stream, or the stream stops
  accepting chunks.
\<close>

definition on_transport ::
  "('msg transport \<Rightarrow> 'msg transport) \<Rightarrow> nat \<Rightarrow> 'msg system \<Rightarrow> 'msg system" where
  "on_transport f ref s =
     (if ref < length (heap s) then s\<lparr>heap := (heap s)[ref := f (heap s ! ref)]\<rparr> else s)"

datatype ('raw, 'msg) event =
    Connect string "'msg handlers" "thrown option"
  | Post "string option" 'raw
  | CloseT nat
  | CancelT nat
  | SendT nat 'msg
  | StartT nat "thrown option"
  | FaultT nat thrown

fun exec ::
  "('raw \<Rightarrow> thrown + 'msg) \<Rightarrow> ('msg \<Rightarrow> string) \<Rightarrow> ('raw, 'msg) event \<Rightarrow> 'msg system
     \<Rightarrow> 'msg system" where
  "exec parse stringify (Connect uuid h bound) s = snd (handleSSEConnection uuid h bound s)"
| "exec parse stringify (Post sid b) s = snd (index_handleMessage parse sid b s)"
| "exec parse stringify (CloseT ref) s = on_transport (\<lambda>t. snd (close t)) ref s"
| "exec parse stringify (CancelT ref) s = on_transport (\<lambda>t. snd (cancel t)) ref s"
| "exec parse stringify (SendT ref m) s = on_transport (\<lambda>t. snd (send stringify t m)) ref s"
| "exec parse stringify (StartT ref bound) s = on_transport (\<lambda>t. snd (start bound t)) ref s"
| "exec parse stringify (FaultT ref e) s =
     on_transport (\<lambda>t. t\<lparr>stream := (stream t)\<lparr>fault := Some e\<rparr>\<rparr>) ref s"

definition run ::
  "('raw \<Rightarrow> thrown + 'msg) \<Rightarrow> ('msg \<Rightarrow> string) \<Rightarrow> ('raw, 'msg) event list \<Rightarrow> 'msg system
     \<Rightarrow> 'msg system" where
  "run parse stringify evs s = foldl (\<lambda>s' e. exec parse stringify e s') s evs"

text \<open>The session ids of the transports that are connected.\<close>

definition connected_ids :: "'msg system \<Rightarrow> string set" where
  "connected_ids s = set (map sessionId (filter isConnected (heap s)))"

subsection \<open>Reading an event back\<close>




subsection \<open>Notions used to state the properties\<close>

text \<open>The session ids that a sequence of events registers: those of its \<open>Connect\<close>
  events.\<close>

fun connect_ids :: "('raw, 'msg) event list \<Rightarrow> string set" where
  "connect_ids [] = {}"
| "connect_ids (Connect uuid h bound # evs) = insert uuid (connect_ids evs)"
| "connect_ids (_ # evs) = connect_ids evs"

text \<open>Every transport object has its session id among the keys of the map.\<close>

definition all_registered :: "'msg system \<Rightarrow> bool" where
  "all_registered s = (\<forall>t \<in> set (heap s). sessionId t \<in> dom (transports s))"

subsection \<open>Example values\<close>

definition uuid1 :: string where
  "uuid1 = ''123e4567-e89b-42d3-a456-426614174000''"

text \<open>A transport as the constructor leaves it, the same with the three callbacks
  registered, and the same after \<^verbatim>\<open>start()\<close> has connected it.\<close>

definition fresh_transport :: "string transport" where
  "fresh_transport = SSEElysiaTransport ''/messages'' uuid1"

definition wired_transport :: "string transport" where
  "wired_transport =
     fresh_transport\<lparr>onclose := Some Returns, onerror := Some (\<lambda>e. Returns),
                     onmessage := Some (\<lambda>m. Returns)\<rparr>"

definition live_transport :: "string transport" where
  "live_transport = snd (start None wired_transport)"

definition example_handlers :: "string handlers" where
  "example_handlers =
     \<lparr>on_close = Returns, on_error = (\<lambda>e. Returns), on_message = (\<lambda>m. Returns)\<rparr>"

text \<open>A schema that rejects the empty body and accepts every other one as it is, and a
  serialisation that puts a text between double quotes.\<close>

definition example_parse :: "string \<Rightarrow> thrown + string" where
  "example_parse raw = (if raw = [] then Inl (ErrorInstance ''ZodError'') else Inr raw)"

definition example_stringify :: "string \<Rightarrow> string" where
  "example_stringify m = CHR 0x22 # m @ [CHR 0x22]"


text \<open>Connected transports whose \<^verbatim>\<open>onmessage\<close>, respectively \<^verbatim>\<open>onerror\<close>, throws.\<close>

definition throwing_onmessage_transport :: "string transport" where
  "throwing_onmessage_transport =
     live_transport\<lparr>onmessage := Some (\<lambda>m. Throws (ErrorInstance ''Error: handler failed''))\<rparr>"

definition throwing_onerror_transport :: "string transport" where
  "throwing_onerror_transport =
     live_transport\<lparr>onerror := Some (\<lambda>e. Throws (ErrorInstance ''Error: handler failed''))\<rparr>"







section \<open>Properties of the transport\<close>

subsection \<open>Auxiliary facts\<close>






lemma sendEvent_not_connected: "\<not> isConnected t \<Longrightarrow> sendEvent event data t = (Inr (), t)"
  by (simp add: sendEvent_def)

lemma sendEvent_fault:
  "isConnected t \<Longrightarrow> fault (stream t) = Some e \<Longrightarrow> sendEvent event data t = handleError e t"
  by (simp add: sendEvent_def enqueue_def)

lemma close_not_connected: "\<not> isConnected (snd (close t))"
  by (simp add: close_def call_onclose_def split: option.splits)

lemma close_v2_not_connected: "\<not> isConnected (snd (close_v2 t))"
  by (simp add: close_v2_def call_onclose_def split: option.splits)

lemma cancel_not_connected: "\<not> isConnected (snd (cancel t))"
  by (simp add: cancel_def call_onclose_def split: option.splits)

lemma handleError_not_connected: "\<not> isConnected (snd (handleError e t))"
  by (simp add: handleError_def call_onerror_def split: option.splits)

lemma start_connects:
  assumes "\<not> isConnected t" and "fault (stream t) = None"
  shows "start None t =
           (Inr (), t\<lparr>isConnected := True, ctxResponse := True,
                      stream := (stream t)\<lparr>chunks := chunks (stream t) @
                        [TextEncoder_encode (sse_frame ''endpoint'' (endpointUrl t))]\<rparr>\<rparr>)"
  using assms
  by (simp add: start_def setupResponse_def markAsConnected_def sendEndpointEvent_def
        sendEvent_def enqueue_def endpointUrl_def)



text \<open>What a well-formed message meets when no \<^verbatim>\<open>onmessage\<close> is registered, and when
  the registered one throws: the \<^verbatim>\<open>catch\<close> of \<^verbatim>\<open>handlePostMessage\<close> covers the callback
  too.\<close>

lemma valid_message_without_callback:
  assumes "isConnected t" and "parse raw = Inr m" and "onmessage t = None"
  shows "handlePostMessage parse t raw = (createSuccessResponse, t)"
  using assms by (simp add: handlePostMessage_def handleMessage_def call_onmessage_def)

lemma valid_message_callback_throws:
  assumes "isConnected t" and "parse raw = Inr m" and "onmessage t = Some f"
    and "f m = Throws x"
  shows "handlePostMessage parse t raw
           = (createErrorResponse (String_of x) 400, t\<lparr>calls := calls t @ [OnMessage m]\<rparr>)"
  using assms by (simp add: handlePostMessage_def handleMessage_def call_onmessage_def)

text \<open>An identifier in the form of a UUID has no character that percent-encoding
  changes; neither has the path \<^verbatim>\<open>/messages\<close>.\<close>

lemma lower_hex_alnum: "is_lower_hex c \<Longrightarrow> is_alnum c"
  by (auto simp: is_lower_hex_def is_alnum_def)

lemma encodeURIComponent_id:
  "list_all (\<lambda>c. c = CHR ''-'' \<or> is_lower_hex c) s \<Longrightarrow> encodeURIComponent s = s"
proof (induction s)
  case Nil
  show ?case by (simp add: encodeURIComponent_def)
next
  case (Cons c s)
  then have "is_alnum c \<or> uri_mark c"
    by (auto simp: lower_hex_alnum uri_mark_def)
  with Cons show ?case
    by (simp add: encodeURIComponent_def)
qed

lemma uuid_encodeURIComponent: "is_uuid s \<Longrightarrow> encodeURIComponent s = s"
  by (simp add: is_uuid_def encodeURIComponent_id)

lemma encodeURI_messages: "encodeURI ''/messages'' = ''/messages''"
  by (simp add: encodeURI_def is_alnum_def uri_reserved_def uri_mark_def)

lemma live_transport_eq:
  "live_transport =
     \<lparr>sessionId = uuid1, endpoint = ''/messages'', isConnected = True,
      stream = \<lparr>chunks = [TextEncoder_encode
                  (sse_frame ''endpoint'' (''/messages?sessionId='' @ uuid1))],
                fault = None\<rparr>,
      ctxResponse = True, keepaliveInterval = None,
      onclose = Some Returns, onerror = Some (\<lambda>e. Returns),
      onmessage = Some (\<lambda>m. Returns), calls = []\<rparr>"
  by (simp add: live_transport_def wired_transport_def fresh_transport_def
        SSEElysiaTransport_def start_connects endpointUrl_def encodeURI_messages)


text \<open>No method changes the session id of a transport.\<close>

lemma call_onclose_sessionId: "sessionId (snd (call_onclose t)) = sessionId t"
  by (simp add: call_onclose_def split: option.splits)

lemma call_onerror_sessionId: "sessionId (snd (call_onerror e t)) = sessionId t"
  by (simp add: call_onerror_def split: option.splits)

lemma call_onerror_sessionId': "call_onerror e t = (r, t') \<Longrightarrow> sessionId t' = sessionId t"
  using call_onerror_sessionId [of e t] by simp

lemma call_onmessage_sessionId: "sessionId (snd (call_onmessage m t)) = sessionId t"
  by (simp add: call_onmessage_def split: option.splits)

lemma close_sessionId: "sessionId (snd (close t)) = sessionId t"
  by (simp add: close_def call_onclose_sessionId)

lemma cancel_sessionId: "sessionId (snd (cancel t)) = sessionId t"
  by (simp add: cancel_def call_onclose_sessionId)

lemma handleError_sessionId: "sessionId (snd (handleError e t)) = sessionId t"
  by (simp add: handleError_def call_onerror_sessionId)

lemma handleError_sessionId': "handleError e t = (r, t') \<Longrightarrow> sessionId t' = sessionId t"
  using handleError_sessionId [of e t] by simp

lemma sendEvent_sessionId: "sessionId (snd (sendEvent ev d t)) = sessionId t"
  by (simp add: sendEvent_def handleError_sessionId split: sum.splits)

lemma send_sessionId: "sessionId (snd (send stringify t m)) = sessionId t"
  by (simp add: send_def sendEvent_sessionId)

lemma start_catch_sessionId: "sessionId (snd (start_catch e t)) = sessionId t"
  by (auto simp: start_catch_def split: prod.splits sum.splits dest: handleError_sessionId')

lemma sendEndpointEvent_sessionId':
  "sendEndpointEvent t = (r, t') \<Longrightarrow> sessionId t' = sessionId t"
  using sendEvent_sessionId [of "''endpoint''" "endpointUrl t" t]
  by (simp add: sendEndpointEvent_def)

lemma start_sessionId: "sessionId (snd (start bound t)) = sessionId t"
  by (auto simp: start_def setupResponse_def start_catch_sessionId markAsConnected_def
        split: option.splits prod.splits sum.splits dest!: sendEndpointEvent_sessionId')

lemma handleMessage_sessionId':
  "handleMessage parse t raw = (r, t') \<Longrightarrow> sessionId t' = sessionId t"
proof -
  have "sessionId (snd (handleMessage parse t raw)) = sessionId t"
    by (auto simp: handleMessage_def call_onmessage_sessionId
          split: sum.splits prod.splits dest: call_onerror_sessionId')
  then show "handleMessage parse t raw = (r, t') \<Longrightarrow> sessionId t' = sessionId t"
    by simp
qed

lemma handlePostMessage_sessionId:
  "sessionId (snd (handlePostMessage parse t raw)) = sessionId t"
  by (auto simp: handlePostMessage_def split: sum.splits prod.splits
        dest: handleMessage_sessionId')

lemma server_connect_sessionId: "sessionId (snd (server_connect h bound t)) = sessionId t"
  by (simp add: server_connect_def start_sessionId)

text \<open>The routes and the events on the whole system.\<close>

lemma on_transport_registered:
  assumes "all_registered s" and "\<And>t. sessionId (f t) = sessionId t"
  shows "all_registered (on_transport f ref s)"
proof (cases "ref < length (heap s)")
  case False
  with assms(1) show ?thesis by (simp add: on_transport_def)
next
  case True
  have "set ((heap s)[ref := f (heap s ! ref)]) \<subseteq> insert (f (heap s ! ref)) (set (heap s))"
    by (rule set_update_subset_insert)
  moreover have "sessionId (f (heap s ! ref)) \<in> dom (transports s)"
    using assms True by (simp add: all_registered_def)
  ultimately show ?thesis
    using assms(1) True by (auto simp: on_transport_def all_registered_def)
qed

lemma on_transport_transports: "transports (on_transport f ref s) = transports s"
  by (simp add: on_transport_def)

lemma handleSSEConnection_state:
  "snd (handleSSEConnection uuid h bound s) =
     \<lparr>transports = (transports s)(uuid \<mapsto> length (heap s)),
      heap = heap s @ [snd (server_connect h bound (SSEElysiaTransport ''/messages'' uuid))]\<rparr>"
  by (simp add: handleSSEConnection_def Let_def SSEElysiaTransport_def
        split: prod.splits sum.splits)

lemma index_handleMessage_state:
  "snd (index_handleMessage parse sid raw s) =
     (case sid of
        None \<Rightarrow> s
      | Some i \<Rightarrow>
          (if i = [] then s
           else (case transports s i of
                   None \<Rightarrow> s
                 | Some ref \<Rightarrow> on_transport (\<lambda>t. snd (handlePostMessage parse t raw)) ref s)))"
  by (simp add: index_handleMessage_def on_transport_def split: option.splits prod.splits)

lemma index_handleMessage_transports:
  "transports (snd (index_handleMessage parse sid raw s)) = transports s"
  by (simp add: index_handleMessage_state on_transport_transports split: option.splits)

lemma index_handleMessage_registered:
  assumes "all_registered s"
  shows "all_registered (snd (index_handleMessage parse sid raw s))"
  using assms
  by (simp add: index_handleMessage_state on_transport_registered handlePostMessage_sessionId
        split: option.splits)

lemma exec_transports:
  "dom (transports (exec parse stringify e s)) = dom (transports s) \<union> connect_ids [e]"
  by (cases e)
     (simp_all add: handleSSEConnection_state index_handleMessage_transports
        on_transport_transports)

lemma exec_registered:
  assumes "all_registered s"
  shows "all_registered (exec parse stringify e s)"
proof (cases e)
  case (Connect uuid h bound)
  have "sessionId (snd (server_connect h bound (SSEElysiaTransport ''/messages'' uuid))) = uuid"
    by (simp add: server_connect_sessionId) (simp add: SSEElysiaTransport_def)
  with assms Connect show ?thesis
    by (auto simp: handleSSEConnection_state all_registered_def)
next
  case (Post sid raw)
  with assms show ?thesis by (simp add: index_handleMessage_registered)
next
  case (CloseT ref)
  with assms show ?thesis by (simp add: on_transport_registered close_sessionId)
next
  case (CancelT ref)
  with assms show ?thesis by (simp add: on_transport_registered cancel_sessionId)
next
  case (SendT ref m)
  with assms show ?thesis by (simp add: on_transport_registered send_sessionId)
next
  case (StartT ref bound)
  with assms show ?thesis by (simp add: on_transport_registered start_sessionId)
next
  case (FaultT ref e)
  with assms show ?thesis by (simp add: on_transport_registered)
qed

lemma connect_ids_append: "connect_ids (xs @ ys) = connect_ids xs \<union> connect_ids ys"
  by (induction xs rule: connect_ids.induct) auto

lemma run_snoc:
  "run parse stringify (evs @ [e]) s = exec parse stringify e (run parse stringify evs s)"
  by (simp add: run_def)

lemma run_registered:
  "all_registered s \<Longrightarrow> all_registered (run parse stringify evs s)"
proof (induction evs rule: rev_induct)
  case Nil
  then show ?case by (simp add: run_def)
next
  case (snoc e evs)
  then show ?case by (simp add: run_snoc exec_registered)
qed

lemma run_transports:
  "dom (transports (run parse stringify evs s)) = dom (transports s) \<union> connect_ids evs"
proof (induction evs rule: rev_induct)
  case Nil
  show ?case by (simp add: run_def)
next
  case (snoc e evs)
  then show ?case
    by (simp only: run_snoc exec_transports connect_ids_append) auto
qed

subsection \<open>Closing\<close>

text \<open>
  Claim C1, as the code has it. \<^verbatim>\<open>close()\<close> marks the transport as not connected
  whatever its state was, and it calls a registered \<^verbatim>\<open>onclose\<close> on every call: there is
  no test of the previous state. Two calls in a row therefore leave the transport closed
  and invoke the callback twice. Both variants of the class behave so.
\<close>

theorem close_invokes_onclose_on_every_call:
  assumes "onclose t = Some r"
  shows "\<not> isConnected (snd (close t)) \<and>
         calls (snd (close t)) = calls t @ [OnClose] \<and>
         \<not> isConnected (snd (close (snd (close t)))) \<and>
         calls (snd (close (snd (close t)))) = calls t @ [OnClose, OnClose] \<and>
         \<not> isConnected (snd (close_v2 t)) \<and>
         calls (snd (close_v2 t)) = calls t @ [OnClose] \<and>
         \<not> isConnected (snd (close_v2 (snd (close_v2 t)))) \<and>
         calls (snd (close_v2 (snd (close_v2 t)))) = calls t @ [OnClose, OnClose]"
  using assms
  by (simp add: close_def close_v2_def call_onclose_def stopKeepalive_def split: option.splits)

theorem close_invokes_onclose_on_every_call_witness:
  "onclose live_transport = Some Returns \<and>
   calls (snd (close (snd (close live_transport)))) = [OnClose, OnClose] \<and>
   calls (snd (close_v2 (snd (close_v2 live_transport)))) = [OnClose, OnClose]"
  using close_invokes_onclose_on_every_call [of live_transport Returns]
  by (simp add: live_transport_eq wired_transport_def fresh_transport_def
        SSEElysiaTransport_def)

text \<open>
  Claim C1 as stated fails: a connected transport with a registered \<^verbatim>\<open>onclose\<close> goes
  from connected to closed once, yet the second \<^verbatim>\<open>close()\<close>, on the transport that is
  already closed, invokes the callback again.
\<close>

theorem close_twice_counterexample:
  "isConnected live_transport \<and> onclose live_transport = Some Returns \<and>
   calls live_transport = [] \<and>
   \<not> isConnected (snd (close live_transport)) \<and>
   calls (snd (close live_transport)) = [OnClose] \<and>
   calls (snd (close (snd (close live_transport)))) = [OnClose, OnClose] \<and>
   calls (snd (close_v2 (snd (close_v2 live_transport)))) = [OnClose, OnClose]"
  by (simp add: live_transport_eq wired_transport_def fresh_transport_def
        SSEElysiaTransport_def close_def close_v2_def call_onclose_def stopKeepalive_def)

subsection \<open>Sending\<close>

text \<open>
  Claim C5. On a transport that is not connected, \<^verbatim>\<open>send\<close> throws the error
  \<^verbatim>\<open>Not connected\<close> and leaves the transport, and so the stream, as it was. This is the
  case for a transport that was never started, for one that was closed, and for one
  whose last write failed.
\<close>

theorem send_not_connected_raises:
  "(\<not> isConnected t \<longrightarrow> send stringify t m = (Inl (new_Error ''Not connected''), t)) \<and>
   send stringify (SSEElysiaTransport ep uuid) m =
     (Inl (new_Error ''Not connected''), SSEElysiaTransport ep uuid) \<and>
   send stringify (snd (close t)) m = (Inl (new_Error ''Not connected''), snd (close t)) \<and>
   (isConnected t \<and> fault (stream t) = Some e \<longrightarrow>
      send stringify (snd (sendEvent event data t)) m =
        (Inl (new_Error ''Not connected''), snd (sendEvent event data t)))"
proof -
  have a: "\<not> isConnected u \<Longrightarrow> send stringify u m = (Inl (new_Error ''Not connected''), u)"
    for u :: "'a transport"
    by (simp add: send_def)
  have b: "\<not> isConnected (SSEElysiaTransport ep uuid :: 'a transport)"
    by (simp add: SSEElysiaTransport_def)
  show ?thesis
    using a [of t] a [OF b] a [OF close_not_connected, of t]
      a [OF handleError_not_connected, of e t]
    by (simp add: sendEvent_fault)
qed

theorem send_not_connected_raises_witness:
  "\<not> isConnected fresh_transport \<and>
   send (\<lambda>m. m) fresh_transport ''{}''
     = (Inl (ErrorInstance ''Error: Not connected''), fresh_transport) \<and>
   isConnected live_transport \<and>
   fault (stream (live_transport\<lparr>stream := \<lparr>chunks = [], fault = Some (OtherValue ''closed'')\<rparr>\<rparr>))
     = Some (OtherValue ''closed'') \<and>
   fst (send (\<lambda>m. m)
     (snd (sendEvent ''message'' ''{}''
        (live_transport\<lparr>stream := \<lparr>chunks = [], fault = Some (OtherValue ''closed'')\<rparr>\<rparr>))) ''{}'')
     = Inl (ErrorInstance ''Error: Not connected'')"
  using send_not_connected_raises [of fresh_transport "\<lambda>m. m" "''{}''" "''/messages''" uuid1
       "OtherValue ''closed''" "''message''" "''{}''"]
    send_not_connected_raises
      [of "live_transport\<lparr>stream := \<lparr>chunks = [], fault = Some (OtherValue ''closed'')\<rparr>\<rparr>"
       "\<lambda>m. m" "''{}''" "''/messages''" uuid1
       "OtherValue ''closed''" "''message''" "''{}''"]
  by (simp add: live_transport_eq wired_transport_def fresh_transport_def
        SSEElysiaTransport_def new_Error_def)

subsection \<open>Framing\<close>

text \<open>
  Claim C7. On a connected transport whose stream accepts the chunk, the event write
  returns normally and appends one chunk to the stream, the encoding of
  \<^verbatim>\<open>"event: " + name + "\n" + "data: " + payload + "\n\n"\<close>; nothing else of the transport
  changes.
\<close>

theorem sendEvent_writes_frame:
  assumes "isConnected t" and "fault (stream t) = None"
  shows "sendEvent event data t =
           (Inr (), t\<lparr>stream := (stream t)\<lparr>chunks := chunks (stream t) @
              [TextEncoder_encode
                 (''event: '' @ event @ [CHR 0x0A] @ ''data: '' @ data @ [CHR 0x0A, CHR 0x0A])]\<rparr>\<rparr>)"
  using assms by (simp add: sendEvent_def enqueue_def sse_frame_def)

theorem sendEvent_writes_frame_witness:
  "isConnected live_transport \<and> fault (stream live_transport) = None \<and>
   chunks (stream (snd (sendEvent ''message'' ''{}'' live_transport))) =
     chunks (stream live_transport) @
     [[101, 118, 101, 110, 116, 58, 32, 109, 101, 115, 115, 97, 103, 101, 10,
       100, 97, 116, 97, 58, 32, 123, 125, 10, 10]]"
  using sendEvent_writes_frame [of live_transport "''message''" "''{}''"]
  by (simp add: live_transport_eq wired_transport_def fresh_transport_def
        SSEElysiaTransport_def TextEncoder_encode_def)

text \<open>
  Claim C8. After \<^verbatim>\<open>close()\<close>, in either variant, the event write returns normally and
  changes nothing: the stream holds exactly the chunks it held before the close.
\<close>

theorem sendEvent_after_close_noop:
  "sendEvent event data (snd (close t)) = (Inr (), snd (close t)) \<and>
   sendEvent event data (snd (close_v2 t)) = (Inr (), snd (close_v2 t)) \<and>
   chunks (stream (snd (sendEvent event data (snd (close t))))) = chunks (stream t) \<and>
   chunks (stream (snd (sendEvent event data (snd (close_v2 t))))) = chunks (stream t)"
  by (simp add: sendEvent_not_connected close_not_connected close_v2_not_connected)
     (simp add: close_def close_v2_def call_onclose_def stopKeepalive_def split: option.splits)





subsection \<open>Starting\<close>

text \<open>
  Claim C6. When \<^verbatim>\<open>start()\<close> runs on a transport that is not connected, the response is
  constructed and the stream accepts the chunk, it returns normally and appends exactly
  one chunk: the \<^verbatim>\<open>endpoint\<close> event whose payload is the percent-encoded path followed by
  \<^verbatim>\<open>?sessionId=\<close> and the transport's own id. The code appends the id as it is; for an
  id in the form \<^verbatim>\<open>randomUUID()\<close> produces, that is its percent-encoding. On a new
  transport for the path \<^verbatim>\<open>/messages\<close> this chunk is all the stream holds.
\<close>

theorem start_writes_endpoint_event:
  assumes "\<not> isConnected t" and "fault (stream t) = None" and "is_uuid (sessionId t)"
  shows "fst (start None t) = Inr () \<and>
         chunks (stream (snd (start None t))) =
           chunks (stream t) @
             [TextEncoder_encode
                (sse_frame ''endpoint''
                   (encodeURI (endpoint t) @ ''?sessionId='' @ sessionId t))] \<and>
         encodeURIComponent (sessionId t) = sessionId t \<and>
         (chunks (stream t) = [] \<and> endpoint t = ''/messages'' \<longrightarrow>
            chunks (stream (snd (start None t))) =
              [TextEncoder_encode
                 (''event: endpoint'' @ [CHR 0x0A] @ ''data: /messages?sessionId=''
                    @ encodeURIComponent (sessionId t) @ [CHR 0x0A, CHR 0x0A])])"
  using assms
  by (simp add: start_connects endpointUrl_def uuid_encodeURIComponent encodeURI_messages
        sse_frame_def)

theorem start_writes_endpoint_event_witness:
  "\<not> isConnected fresh_transport \<and> fault (stream fresh_transport) = None \<and>
   is_uuid (sessionId fresh_transport) \<and>
   fst (start None fresh_transport) = Inr () \<and>
   chunks (stream (snd (start None fresh_transport))) =
     [TextEncoder_encode
        (''event: endpoint'' @ [CHR 0x0A]
           @ ''data: /messages?sessionId=123e4567-e89b-42d3-a456-426614174000''
           @ [CHR 0x0A, CHR 0x0A])]"
proof -
  have u: "is_uuid uuid1"
    by (simp add: is_uuid_def uuid1_def uuid_hyphens_def is_lower_hex_def eval_nat_numeral)
  have f: "sessionId fresh_transport = uuid1" "\<not> isConnected fresh_transport"
    "fault (stream fresh_transport) = None" "chunks (stream fresh_transport) = []"
    "endpoint fresh_transport = ''/messages''"
    by (simp_all add: fresh_transport_def SSEElysiaTransport_def)
  show ?thesis
    using start_writes_endpoint_event [of fresh_transport] u f
    by (simp add: uuid1_def sse_frame_def encodeURI_messages)
qed

subsection \<open>Inbound messages\<close>

text \<open>
  Claim C3, as the code has it. Let the body be well formed. On a connected transport
  \<^verbatim>\<open>handlePostMessage\<close> calls \<^verbatim>\<open>onmessage\<close>, if one is registered, once with the decoded
  message, and that is the only callback invocation it adds. It answers 202 with
  \<^verbatim>\<open>{ success: true }\<close> when no callback is registered or the callback returns normally;
  when the callback throws, the \<^verbatim>\<open>catch\<close> of \<^verbatim>\<open>handlePostMessage\<close> answers 400 with the
  text of what was thrown. The same holds right after a \<^verbatim>\<open>start()\<close> that connected the
  transport.
\<close>

theorem valid_message_outcome:
  assumes "parse raw = Inr m"
  shows "(isConnected t \<longrightarrow>
            handlePostMessage parse t raw =
              (case onmessage t of
                 None \<Rightarrow>
                   (\<lparr>status = 202, headers = [(''content-type'', ''application/json'')],
                     body = SuccessBody\<rparr>, t)
               | Some f \<Rightarrow>
                   ((case f m of
                       Returns \<Rightarrow>
                         \<lparr>status = 202, headers = [(''content-type'', ''application/json'')],
                          body = SuccessBody\<rparr>
                     | Throws x \<Rightarrow>
                         \<lparr>status = 400, headers = [(''content-type'', ''application/json'')],
                          body = ErrorBody (String_of x)\<rparr>),
                    t\<lparr>calls := calls t @ [OnMessage m]\<rparr>))) \<and>
         (\<not> isConnected t \<and> fault (stream t) = None \<longrightarrow>
            fst (start None t) = Inr () \<and>
            calls (snd (start None t)) = calls t \<and>
            handlePostMessage parse (snd (start None t)) raw =
              (case onmessage t of
                 None \<Rightarrow>
                   (\<lparr>status = 202, headers = [(''content-type'', ''application/json'')],
                     body = SuccessBody\<rparr>, snd (start None t))
               | Some f \<Rightarrow>
                   ((case f m of
                       Returns \<Rightarrow>
                         \<lparr>status = 202, headers = [(''content-type'', ''application/json'')],
                          body = SuccessBody\<rparr>
                     | Throws x \<Rightarrow>
                         \<lparr>status = 400, headers = [(''content-type'', ''application/json'')],
                          body = ErrorBody (String_of x)\<rparr>),
                    (snd (start None t))\<lparr>calls := calls t @ [OnMessage m]\<rparr>)))"
proof -
  have a: "handlePostMessage parse u raw =
              (case onmessage u of
                 None \<Rightarrow> (createSuccessResponse, u)
               | Some f \<Rightarrow>
                   ((case f m of
                       Returns \<Rightarrow> createSuccessResponse
                     | Throws x \<Rightarrow> createErrorResponse (String_of x) 400),
                    u\<lparr>calls := calls u @ [OnMessage m]\<rparr>))"
    if "isConnected u" for u
    using that assms
    by (simp add: handlePostMessage_def handleMessage_def call_onmessage_def
          split: option.splits outcome.splits)
  show ?thesis
  proof (intro conjI impI)
    assume "isConnected t"
    then show "handlePostMessage parse t raw =
              (case onmessage t of
                 None \<Rightarrow>
                   (\<lparr>status = 202, headers = [(''content-type'', ''application/json'')],
                     body = SuccessBody\<rparr>, t)
               | Some f \<Rightarrow>
                   ((case f m of
                       Returns \<Rightarrow>
                         \<lparr>status = 202, headers = [(''content-type'', ''application/json'')],
                          body = SuccessBody\<rparr>
                     | Throws x \<Rightarrow>
                         \<lparr>status = 400, headers = [(''content-type'', ''application/json'')],
                          body = ErrorBody (String_of x)\<rparr>),
                    t\<lparr>calls := calls t @ [OnMessage m]\<rparr>))"
      by (simp add: a createSuccessResponse_def createErrorResponse_def
            split: option.splits outcome.splits)
  next
    assume h: "\<not> isConnected t \<and> fault (stream t) = None"
    then have s: "start None t =
           (Inr (), t\<lparr>isConnected := True, ctxResponse := True,
                      stream := (stream t)\<lparr>chunks := chunks (stream t) @
                        [TextEncoder_encode (sse_frame ''endpoint'' (endpointUrl t))]\<rparr>\<rparr>)"
      by (simp add: start_connects)
    show "fst (start None t) = Inr ()" by (simp add: s)
    show "calls (snd (start None t)) = calls t" by (simp add: s)
    have c: "isConnected (snd (start None t))" "onmessage (snd (start None t)) = onmessage t"
      "calls (snd (start None t)) = calls t"
      by (simp_all add: s)
    show "handlePostMessage parse (snd (start None t)) raw =
              (case onmessage t of
                 None \<Rightarrow>
                   (\<lparr>status = 202, headers = [(''content-type'', ''application/json'')],
                     body = SuccessBody\<rparr>, snd (start None t))
               | Some f \<Rightarrow>
                   ((case f m of
                       Returns \<Rightarrow>
                         \<lparr>status = 202, headers = [(''content-type'', ''application/json'')],
                          body = SuccessBody\<rparr>
                     | Throws x \<Rightarrow>
                         \<lparr>status = 400, headers = [(''content-type'', ''application/json'')],
                          body = ErrorBody (String_of x)\<rparr>),
                    (snd (start None t))\<lparr>calls := calls t @ [OnMessage m]\<rparr>))"
      by (simp add: a [OF c(1)] c(2,3) createSuccessResponse_def createErrorResponse_def
            split: option.splits outcome.splits)
  qed
qed


theorem valid_message_outcome_witness:
  "example_parse ''ping'' = Inr ''ping'' \<and> isConnected live_transport \<and>
   fst (handlePostMessage example_parse live_transport ''ping'')
     = \<lparr>status = 202, headers = [(''content-type'', ''application/json'')],
        body = SuccessBody\<rparr> \<and>
   calls (snd (handlePostMessage example_parse live_transport ''ping''))
     = [OnMessage ''ping''] \<and>
   \<not> isConnected wired_transport \<and> fault (stream wired_transport) = None \<and>
   status (fst (handlePostMessage example_parse (snd (start None wired_transport)) ''ping''))
     = 202 \<and>
   calls (snd (handlePostMessage example_parse (snd (start None wired_transport)) ''ping''))
     = [OnMessage ''ping'']"
proof -
  have p: "example_parse ''ping'' = Inr ''ping''"
    by (simp add: example_parse_def)
  have c: "isConnected live_transport" "onmessage live_transport = Some (\<lambda>m. Returns)"
    "calls live_transport = []"
    by (simp_all add: live_transport_eq)
  have d: "\<not> isConnected wired_transport" "fault (stream wired_transport) = None"
    "onmessage wired_transport = Some (\<lambda>m. Returns)" "calls wired_transport = []"
    by (simp_all add: wired_transport_def fresh_transport_def SSEElysiaTransport_def)
  note w = valid_message_outcome [of example_parse "''ping''" "''ping''" live_transport, OF p]
  note v = valid_message_outcome [of example_parse "''ping''" "''ping''" wired_transport, OF p]
  have w1: "fst (handlePostMessage example_parse live_transport ''ping'')
     = \<lparr>status = 202, headers = [(''content-type'', ''application/json'')],
        body = SuccessBody\<rparr>"
    using w [THEN conjunct1] c by simp
  have w2: "calls (snd (handlePostMessage example_parse live_transport ''ping''))
     = [OnMessage ''ping'']"
    using w [THEN conjunct1] c by simp
  have v0: "handlePostMessage example_parse (snd (start None wired_transport)) ''ping''
     = (\<lparr>status = 202, headers = [(''content-type'', ''application/json'')],
         body = SuccessBody\<rparr>,
        (snd (start None wired_transport))\<lparr>calls := [] @ [OnMessage ''ping'']\<rparr>)"
    using v [THEN conjunct2] d by simp
  have v1: "status (fst (handlePostMessage example_parse (snd (start None wired_transport))
              ''ping'')) = 202"
    by (simp add: v0)
  have v2: "calls (snd (handlePostMessage example_parse (snd (start None wired_transport))
              ''ping'')) = [OnMessage ''ping'']"
    by (simp add: v0)
  show ?thesis
    using p c(1) d(1,2) w1 w2 v1 v2 by blast
qed

text \<open>
  Claim C3 as stated fails: on a connected transport whose \<^verbatim>\<open>onmessage\<close> throws, a
  well-formed body is answered 400.
\<close>

theorem valid_message_throwing_handler_counterexample:
  "isConnected throwing_onmessage_transport \<and>
   example_parse ''ping'' = Inr ''ping'' \<and>
   fst (handlePostMessage example_parse throwing_onmessage_transport ''ping'')
     = \<lparr>status = 400, headers = [(''content-type'', ''application/json'')],
        body = ErrorBody ''Error: handler failed''\<rparr> \<and>
   status (fst (handlePostMessage example_parse throwing_onmessage_transport ''ping'')) \<noteq> 202"
  by (simp add: throwing_onmessage_transport_def live_transport_eq example_parse_def
        handlePostMessage_def handleMessage_def call_onmessage_def createErrorResponse_def)

text \<open>
  Claim C4, as the code has it. Let the body fail validation with error \<open>e\<close>. On a
  connected transport \<^verbatim>\<open>handlePostMessage\<close> answers 400, calls \<^verbatim>\<open>onerror\<close>, if one is
  registered, once with \<open>e\<close>, calls no other callback, and changes nothing else, so the
  transport stays connected. The answer carries the text of \<open>e\<close> when no \<^verbatim>\<open>onerror\<close> is
  registered or it returns normally, and the text of what \<^verbatim>\<open>onerror\<close> threw when it
  throws. A well-formed body that follows is answered as any well-formed body is: 202
  unless \<^verbatim>\<open>onmessage\<close> throws.
\<close>

theorem invalid_message_outcome:
  assumes "isConnected t" and "parse raw = Inl e"
  shows "handlePostMessage parse t raw =
           (\<lparr>status = 400, headers = [(''content-type'', ''application/json'')],
             body = ErrorBody (String_of
                      (case onerror t of
                         None \<Rightarrow> e
                       | Some g \<Rightarrow> (case g (toError e) of Returns \<Rightarrow> e | Throws x \<Rightarrow> x)))\<rparr>,
            (case onerror t of
               None \<Rightarrow> t
             | Some g \<Rightarrow> t\<lparr>calls := calls t @ [OnError (toError e)]\<rparr>)) \<and>
         isConnected (snd (handlePostMessage parse t raw)) \<and>
         (parse raw' = Inr m \<longrightarrow>
            fst (handlePostMessage parse (snd (handlePostMessage parse t raw)) raw') =
              (case onmessage t of
                 None \<Rightarrow>
                   \<lparr>status = 202, headers = [(''content-type'', ''application/json'')],
                    body = SuccessBody\<rparr>
               | Some f \<Rightarrow>
                   (case f m of
                      Returns \<Rightarrow>
                        \<lparr>status = 202, headers = [(''content-type'', ''application/json'')],
                         body = SuccessBody\<rparr>
                    | Throws x \<Rightarrow>
                        \<lparr>status = 400, headers = [(''content-type'', ''application/json'')],
                         body = ErrorBody (String_of x)\<rparr>)))"
  using assms
  by (simp add: handlePostMessage_def handleMessage_def call_onerror_def call_onmessage_def
        createErrorResponse_def createSuccessResponse_def
        split: option.splits outcome.splits)

theorem invalid_message_outcome_witness:
  "isConnected live_transport \<and> example_parse [] = Inl (ErrorInstance ''ZodError'') \<and>
   fst (handlePostMessage example_parse live_transport [])
     = \<lparr>status = 400, headers = [(''content-type'', ''application/json'')],
        body = ErrorBody ''ZodError''\<rparr> \<and>
   calls (snd (handlePostMessage example_parse live_transport []))
     = [OnError (ErrorInstance ''ZodError'')] \<and>
   isConnected (snd (handlePostMessage example_parse live_transport [])) \<and>
   example_parse ''ping'' = Inr ''ping'' \<and>
   status (fst (handlePostMessage example_parse
      (snd (handlePostMessage example_parse live_transport [])) ''ping'')) = 202"
proof -
  have c: "isConnected live_transport" "onerror live_transport = Some (\<lambda>e. Returns)"
    "onmessage live_transport = Some (\<lambda>m. Returns)" "calls live_transport = []"
    by (simp_all add: live_transport_eq)
  have p: "example_parse [] = Inl (ErrorInstance ''ZodError'')"
    "example_parse ''ping'' = Inr ''ping''"
    by (simp_all add: example_parse_def)
  note w = invalid_message_outcome
    [of live_transport example_parse "[]" "ErrorInstance ''ZodError''" "''ping''" "''ping''",
     OF c(1) p(1)]
  have w1: "fst (handlePostMessage example_parse live_transport [])
     = \<lparr>status = 400, headers = [(''content-type'', ''application/json'')],
        body = ErrorBody ''ZodError''\<rparr>"
    using w [THEN conjunct1] c by simp
  have w2: "calls (snd (handlePostMessage example_parse live_transport []))
     = [OnError (ErrorInstance ''ZodError'')]"
    using w [THEN conjunct1] c by simp
  have w3: "isConnected (snd (handlePostMessage example_parse live_transport []))"
    using w by blast
  have w4: "fst (handlePostMessage example_parse
               (snd (handlePostMessage example_parse live_transport [])) ''ping'')
              = \<lparr>status = 202, headers = [(''content-type'', ''application/json'')],
                 body = SuccessBody\<rparr>"
    using w [THEN conjunct2, THEN conjunct2] p(2) c(3) by simp
  have w5: "status (fst (handlePostMessage example_parse
      (snd (handlePostMessage example_parse live_transport [])) ''ping'')) = 202"
    by (simp add: w4)
  show ?thesis
    using c(1) p w1 w2 w3 w5 by blast
qed

text \<open>
  Claim C4 as stated fails: on a connected transport whose \<^verbatim>\<open>onerror\<close> throws, the 400
  carries what the callback threw and not the validation error.
\<close>

theorem invalid_message_throwing_onerror_counterexample:
  "isConnected throwing_onerror_transport \<and>
   example_parse [] = Inl (ErrorInstance ''ZodError'') \<and>
   fst (handlePostMessage example_parse throwing_onerror_transport [])
     = \<lparr>status = 400, headers = [(''content-type'', ''application/json'')],
        body = ErrorBody ''Error: handler failed''\<rparr> \<and>
   body (fst (handlePostMessage example_parse throwing_onerror_transport []))
     \<noteq> ErrorBody (String_of (ErrorInstance ''ZodError''))"
  by (simp add: throwing_onerror_transport_def live_transport_eq example_parse_def
        handlePostMessage_def handleMessage_def call_onerror_def createErrorResponse_def)

subsection \<open>Unset callbacks\<close>

text \<open>
  Claim C10. With no callback registered, whatever else the state of the transport is,
  a method throws only what it throws of its own: \<^verbatim>\<open>start\<close> the error of the response
  constructor, \<^verbatim>\<open>send\<close> the error \<^verbatim>\<open>Not connected\<close> on a transport that is not connected,
  \<^verbatim>\<open>handleMessage\<close> the validation error of a body that is not well formed. Closing, in
  both variants, the cancellation of the stream, the handling of an error and the event
  write, also when the write fails, return normally.
\<close>

theorem unset_callbacks_never_throw:
  assumes "onclose t = None" and "onerror t = None" and "onmessage t = None"
  shows "fst (start bound t) =
           (if isConnected t then Inr ()
            else (case bound of None \<Rightarrow> Inr () | Some e \<Rightarrow> Inl e)) \<and>
         fst (send stringify t m) =
           (if isConnected t then Inr () else Inl (new_Error ''Not connected'')) \<and>
         fst (handleMessage parse t raw) =
           (case parse raw of Inr m' \<Rightarrow> Inr () | Inl e \<Rightarrow> Inl e) \<and>
         fst (close t) = Inr () \<and>
         fst (close_v2 t) = Inr () \<and>
         fst (cancel t) = Inr () \<and>
         fst (handleError e' t) = Inr () \<and>
         fst (sendEvent event data t) = Inr ()"
  using assms
  by (auto simp: start_def setupResponse_def start_catch_def handleError_def call_onerror_def
       sendEndpointEvent_def sendEvent_def markAsConnected_def enqueue_def send_def
       handleMessage_def call_onmessage_def close_def close_v2_def call_onclose_def cancel_def
       stopKeepalive_def
       split: option.splits sum.splits prod.splits)

theorem unset_callbacks_never_throw_witness:
  "onclose fresh_transport = None \<and> onerror fresh_transport = None \<and>
   onmessage fresh_transport = None \<and>
   fst (start None fresh_transport) = Inr () \<and>
   fst (start (Some (OtherValue ''locked'')) fresh_transport) = Inl (OtherValue ''locked'') \<and>
   fst (send example_stringify fresh_transport ''ping'')
     = Inl (ErrorInstance ''Error: Not connected'') \<and>
   fst (handleMessage example_parse fresh_transport ''ping'') = Inr () \<and>
   fst (handleMessage example_parse fresh_transport []) = Inl (ErrorInstance ''ZodError'') \<and>
   fst (close fresh_transport) = Inr () \<and>
   fst (close_v2 fresh_transport) = Inr () \<and>
   fst (cancel fresh_transport) = Inr () \<and>
   fst (handleError (OtherValue ''closed'') fresh_transport) = Inr () \<and>
   fst (sendEvent ''message'' ''{}'' fresh_transport) = Inr ()"
  using unset_callbacks_never_throw
      [of fresh_transport None example_stringify "''ping''" example_parse "''ping''"
          "OtherValue ''closed''" "''message''" "''{}''"]
    unset_callbacks_never_throw
      [of fresh_transport "Some (OtherValue ''locked'')" example_stringify "''ping''"
          example_parse "[]" "OtherValue ''closed''" "''message''" "''{}''"]
  by (simp add: fresh_transport_def SSEElysiaTransport_def example_parse_def new_Error_def)

section \<open>Properties of the session map\<close>

text \<open>
  Claim C2, as the code has it. The routing code adds an entry to the map when a
  connection is opened and has no statement that removes one. After any sequence of
  events from the initial state, the keys of the map are the session ids of all the
  connections opened so far; the session id of every connected transport is among them,
  and no event makes the key set smaller.
\<close>

theorem registry_keeps_every_session:
  "connected_ids (run parse stringify evs init_system)
     \<subseteq> dom (transports (run parse stringify evs init_system)) \<and>
   dom (transports (run parse stringify evs init_system)) = connect_ids evs \<and>
   dom (transports s) \<subseteq> dom (transports (run parse stringify evs s))"
proof -
  have "all_registered (init_system :: 'c system)"
    by (simp add: all_registered_def init_system_def)
  then have "all_registered (run parse stringify evs init_system)"
    by (rule run_registered)
  then have "connected_ids (run parse stringify evs init_system)
     \<subseteq> dom (transports (run parse stringify evs init_system))"
    by (auto simp: all_registered_def connected_ids_def)
  moreover have "dom (transports (run parse stringify evs init_system)) = connect_ids evs"
    by (simp add: run_transports) (simp add: init_system_def)
  ultimately show ?thesis
    by (simp add: run_transports)
qed

text \<open>
  Claim C2 as stated fails: after a connection is opened and its transport is closed,
  the map still has the session id as a key, while no transport is connected. The same
  happens when the client cancels the stream and when a write fails.
\<close>

theorem registry_keeps_closed_session_counterexample:
  "dom (transports (run example_parse example_stringify
          [Connect uuid1 example_handlers None, CloseT 0] init_system))
     \<noteq> connected_ids (run example_parse example_stringify
          [Connect uuid1 example_handlers None, CloseT 0] init_system) \<and>
   dom (transports (run example_parse example_stringify
          [Connect uuid1 example_handlers None, CloseT 0] init_system)) = {uuid1} \<and>
   connected_ids (run example_parse example_stringify
          [Connect uuid1 example_handlers None, CloseT 0] init_system) = {} \<and>
   dom (transports (run example_parse example_stringify
          [Connect uuid1 example_handlers None, CancelT 0] init_system)) = {uuid1} \<and>
   connected_ids (run example_parse example_stringify
          [Connect uuid1 example_handlers None, CancelT 0] init_system) = {} \<and>
   dom (transports (run example_parse example_stringify
          [Connect uuid1 example_handlers None, FaultT 0 (OtherValue ''closed''),
           SendT 0 ''ping''] init_system)) = {uuid1} \<and>
   connected_ids (run example_parse example_stringify
          [Connect uuid1 example_handlers None, FaultT 0 (OtherValue ''closed''),
           SendT 0 ''ping''] init_system) = {}"
  by (simp add: run_def init_system_def handleSSEConnection_def server_connect_def
        SSEElysiaTransport_def start_def setupResponse_def markAsConnected_def
        sendEndpointEvent_def sendEvent_def enqueue_def on_transport_def close_def
        cancel_def send_def handleError_def call_onerror_def
        call_onclose_def connected_ids_def example_handlers_def Let_def)

end
